theory Spec2Isabelle
  imports Main "HOL-Library.Monad_Syntax"
begin

section \<open>The xmap transformer exporter\<close>

text \<open>
  A shallow embedding of \<^verbatim>\<open>xmap_transformer_exporter.py\<close>: the two functions
  \<^verbatim>\<open>setup\<close> and \<^verbatim>\<open>lower\<close> and the closures \<^verbatim>\<open>model_init\<close>, \<^verbatim>\<open>fwd\<close> and
  \<^verbatim>\<open>pjit_fwd\<close> they define.

  Conventions.
  \<^item> Array dimensions, and with them the hyperparameters, \<^verbatim>\<open>batch_size\<close> and
    \<^verbatim>\<open>seq_len\<close>, are natural numbers.
  \<^item> A Python exception is the value \<open>None\<close>. The operations of the file that can raise
    are \<^verbatim>\<open>reshape\<close>, the tuple unpacking of the split keys, and the lowering of a
    \<^verbatim>\<open>pjit\<close> function, which rejects a sharding that does not fit the mesh and the
    array it shards.
  \<^item> Integer arrays have 32-bit elements: a Python int that goes into one wraps.
  \<^item> A nested function becomes a top-level function whose leading arguments are the
    variables it captures.
  \<^item> The members of the imported modules \<^verbatim>\<open>checkpoint\<close>, \<^verbatim>\<open>chunk\<close>, \<^verbatim>\<open>weights\<close>,
    \<^verbatim>\<open>partitioning\<close>, \<^verbatim>\<open>inference\<close>, \<^verbatim>\<open>two_d_parallel_xmap\<close> and \<^verbatim>\<open>shard_map\<close> are
    parameters (the records \<open>setup_imports\<close> and \<open>lower_imports\<close> below), functions
    of their arguments; \<^verbatim>\<open>partitioning.logical_to_physical\<close> also reads the ambient
    rules. Every theorem holds for each implementation of them that returns.
  \<^item> The values a lowered computation produces when it runs are not modelled, only its
    staging.
\<close>

subsection \<open>Arrays\<close>

datatype dtype = float32 | int32

text \<open>\<^verbatim>\<open>jax.random\<close>: a key is the seed it was made from or one of the keys a split returned.\<close>

datatype key = PRNGKey int | Subkey key nat nat

definition random_split :: "key \<Rightarrow> nat \<Rightarrow> key list" where
  "random_split k n = map (Subkey k n) [0..<n]"

text \<open>
  An array is described by its shape, its element type and where its elements come
  from: drawn from a normal distribution under a key, all ones, or explicit integers
  in row-major order.
\<close>

datatype content = Normal key | Ones | Ints "int list"

record Array =
  shape :: "nat list"
  dtype :: dtype
  content :: content

definition random_normal :: "key \<Rightarrow> nat list \<Rightarrow> dtype \<Rightarrow> Array" where
  "random_normal k shp dt = \<lparr>shape = shp, dtype = dt, content = Normal k\<rparr>"

definition jnp_ones :: "nat list \<Rightarrow> dtype \<Rightarrow> Array" where
  "jnp_ones shp dt = \<lparr>shape = shp, dtype = dt, content = Ones\<rparr>"

text \<open>The value an integer has as an element of an \<open>int32\<close> array: it wraps.\<close>

definition wrap_int32 :: "int \<Rightarrow> int" where
  "wrap_int32 x = (x + 2147483648) mod 4294967296 - 2147483648"

definition jnp_arange :: "nat \<Rightarrow> Array" where
  "jnp_arange n =
     \<lparr>shape = [n], dtype = int32, content = Ints (map (\<lambda>i. wrap_int32 (int i)) [0..<n])\<rparr>"

text \<open>\<^verbatim>\<open>jnp.array\<close> of a list of Python ints; the empty list gives a float array.\<close>

definition jnp_array :: "int list \<Rightarrow> Array" where
  "jnp_array xs =
     \<lparr>shape = [length xs], dtype = (if xs = [] then float32 else int32),
      content = Ints (map wrap_int32 xs)\<rparr>"

text \<open>\<^verbatim>\<open>jnp.reshape\<close> raises unless the new shape has as many elements as the old one.\<close>

definition jnp_reshape :: "Array \<Rightarrow> nat list \<Rightarrow> Array option" where
  "jnp_reshape a shp =
     (if prod_list shp = prod_list (shape a) then Some (a\<lparr>shape := shp\<rparr>) else None)"

text \<open>What \<^verbatim>\<open>jax.eval_shape\<close> keeps of an array: a \<^verbatim>\<open>ShapeDtypeStruct\<close>.\<close>

record ShapeDtypeStruct =
  sds_shape :: "nat list"
  sds_dtype :: dtype

definition aval :: "Array \<Rightarrow> ShapeDtypeStruct" where
  "aval a = \<lparr>sds_shape = shape a, sds_dtype = dtype a\<rparr>"

subsection \<open>Containers\<close>

text \<open>
  The pytrees of the file, over the type of their leaves; \<^verbatim>\<open>jax.tree_util.tree_map\<close>
  is the map function of each. The fields of \<^verbatim>\<open>FullChunkResult\<close> are not named in the
  file: its tree is the list of its leaves, and \<^verbatim>\<open>tree_map\<close> on it is \<open>map\<close>.
\<close>

record HParams =
  layers :: nat
  embed :: nat
  ff :: nat
  heads :: nat
  qkv :: nat
  max_len :: nat
  vocab :: nat

datatype 'a Layer = Layer (q_wi: 'a) (kv: 'a) (o_wo: 'a)

datatype 'a Weights = Weights (layer: "'a Layer") (sin: 'a) (cos: 'a) (embedding: 'a)

datatype 'a Chunk = Chunk (tokens: 'a) (lengths: 'a)

type_synonym 'a FullChunkResult = "'a list"

text \<open>\<^verbatim>\<open>P(...)\<close>: per dimension a logical axis name or \<^verbatim>\<open>None\<close>.\<close>

type_synonym PartitionSpec = "string option list"

subsection \<open>The mesh\<close>

datatype device = FakeDevice string nat

record 'a ndarray =
  nd_shape :: "nat list"
  nd_items :: "'a list"

definition fake_devices :: "nat \<Rightarrow> string \<Rightarrow> device list" where
  "fake_devices n platform = map (FakeDevice platform) [0..<n]"

definition np_array :: "'a list \<Rightarrow> 'a ndarray" where
  "np_array xs = \<lparr>nd_shape = [length xs], nd_items = xs\<rparr>"

definition np_reshape :: "'a ndarray \<Rightarrow> nat list \<Rightarrow> 'a ndarray option" where
  "np_reshape a shp =
     (if prod_list shp = length (nd_items a) then Some (a\<lparr>nd_shape := shp\<rparr>) else None)"

record Mesh =
  devices :: "device ndarray"
  axis_names :: "string list"

subsection \<open>The ambient context\<close>

text \<open>
  The process-wide state the file works in: the partitioning rules and the mesh
  installed by the enclosing \<^verbatim>\<open>with\<close> blocks, if any. A \<^verbatim>\<open>with\<close> block runs its body
  in the context with that component replaced and restores the previous one on exit,
  so a function is modelled as reading the context it is called in.
\<close>

record 'rules ambient =
  rules_ctx :: "'rules option"
  mesh_ctx :: "Mesh option"

definition with_rules :: "'rules \<Rightarrow> 'rules ambient \<Rightarrow> 'rules ambient" where
  "with_rules r amb = amb\<lparr>rules_ctx := Some r\<rparr>"

definition with_mesh :: "Mesh \<Rightarrow> 'rules ambient \<Rightarrow> 'rules ambient" where
  "with_mesh m amb = amb\<lparr>mesh_ctx := Some m\<rparr>"

subsection \<open>The imported modules\<close>

text \<open>
  The members of the repository's other modules that the file uses, in two records:
  those \<^verbatim>\<open>setup\<close> uses, and the further ones \<^verbatim>\<open>lower\<close> uses.
  \<open>q_wi_per_head\<close> and \<open>o_wo_per_head\<close> are the derived properties of
  \<^verbatim>\<open>checkpoint.HParams\<close>; \<open>Weights_logical_axes\<close> and \<open>FullChunkResult_logical_axes\<close>
  are the class methods \<^verbatim>\<open>logical_axes()\<close>; \<open>logical_to_physical\<close> is called with a
  leaf only and resolves it under the rules of the ambient context, which it reads
  and leaves as it is.

  The physical shardings are values of the module \<^verbatim>\<open>partitioning\<close>, so the check that
  the lowering of a \<^verbatim>\<open>pjit\<close> function makes of one of them, against the mesh and the
  shape of the array it shards, is a parameter too: \<open>sharding_accepted\<close> for a leaf of
  the weights or of the chunk, \<open>result_accepted\<close> for the output shardings of the
  forward function against what \<^verbatim>\<open>shard_map\<close> returns.
\<close>

record ('rules, 'phys) setup_imports =
  q_wi_per_head :: "HParams \<Rightarrow> nat"
  o_wo_per_head :: "HParams \<Rightarrow> nat"
  Weights_logical_axes :: "PartitionSpec Weights"
  FullChunkResult_logical_axes :: "PartitionSpec FullChunkResult"
  logical_to_physical :: "'rules option \<Rightarrow> PartitionSpec \<Rightarrow> 'phys"
  sharding_accepted :: "Mesh \<Rightarrow> 'phys \<Rightarrow> ShapeDtypeStruct \<Rightarrow> bool"

record ('rules, 'phys, 'attn, 'table, 'lf, 'kv, 'res, 'out) lower_imports =
  "('rules, 'phys) setup_imports" +
  AXES_YZX :: 'attn
  make_rules_two_d :: "'attn \<Rightarrow> bool \<Rightarrow> 'table"
  PartitioningRules :: "'table \<Rightarrow> 'rules"
  transformer_layer_weight_stationary :: 'lf
  infer_xmap :: "HParams \<Rightarrow> 'lf \<Rightarrow> ShapeDtypeStruct Weights \<Rightarrow> 'kv list
    \<Rightarrow> ShapeDtypeStruct Chunk \<Rightarrow> 'attn \<Rightarrow> bool \<Rightarrow> bool \<Rightarrow> bool \<Rightarrow> dtype \<Rightarrow> 'res"
  shard_map :: "(ShapeDtypeStruct Weights \<Rightarrow> ShapeDtypeStruct Chunk \<Rightarrow> 'res) \<Rightarrow> Mesh
    \<Rightarrow> 'phys Weights \<times> 'phys Chunk \<Rightarrow> 'phys FullChunkResult
    \<Rightarrow> ShapeDtypeStruct Weights \<Rightarrow> ShapeDtypeStruct Chunk \<Rightarrow> 'out"
  result_accepted :: "Mesh \<Rightarrow> 'phys FullChunkResult \<Rightarrow> 'out \<Rightarrow> bool"

subsection \<open>\<^verbatim>\<open>model_init\<close>\<close>

text \<open>
  The closure of \<^verbatim>\<open>setup\<close>; it captures \<open>h\<close>, \<open>dtype\<close>, \<open>batch_size\<close> and \<open>seq_len\<close>
  and takes no argument of its own. It runs in the ambient context of its call.
\<close>

definition model_init ::
  "('rules, 'phys, 'z) setup_imports_scheme \<Rightarrow> HParams \<Rightarrow> dtype \<Rightarrow> nat \<Rightarrow> nat
    \<Rightarrow> 'rules ambient \<Rightarrow> (Array Weights \<times> Array Chunk) option" where
  "model_init E h dt batch_size seq_len amb =
     (let key = PRNGKey 0 in
      case random_split key 5 of
        [key, k2, k3, k4, k5] \<Rightarrow>
          (let q_wi = random_normal k2 [layers h, heads h, embed h, q_wi_per_head E h] dt;
               kv = random_normal k3 [layers h, embed h, 1, 2 * qkv h] dt;
               o_wo = random_normal k4 [layers h, heads h, o_wo_per_head E h, embed h] dt;
               embedding = random_normal k5 [vocab h, embed h] dt;
               sin = jnp_ones [max_len h, qkv h div 2] dt;
               cos = jnp_ones [max_len h, qkv h div 2] dt;
               params_pjit = Weights (Layer q_wi kv o_wo) sin cos embedding
           in do {
             toks \<leftarrow> jnp_reshape (jnp_arange (batch_size * seq_len)) [batch_size, seq_len];
             let token_chunk = Chunk toks (jnp_array (replicate batch_size (int seq_len)));
             Some (params_pjit, token_chunk)
           })
      | _ \<Rightarrow> None)"

subsection \<open>Staging\<close>

text \<open>
  Tracing calls a function once on abstract values; what it keeps of an array the
  function returns is its shape and dtype. \<^verbatim>\<open>jax.eval_shape(f)\<close> traces \<open>f\<close> and returns
  those.
\<close>

definition eval_shape ::
  "('rules ambient \<Rightarrow> (Array Weights \<times> Array Chunk) option) \<Rightarrow> 'rules ambient
    \<Rightarrow> (ShapeDtypeStruct Weights \<times> ShapeDtypeStruct Chunk) option" where
  "eval_shape f amb = do {
     (params, token_chunk) \<leftarrow> f amb;
     Some (map_Weights aval params, map_Chunk aval token_chunk)
   }"

text \<open>
  \<^verbatim>\<open>pjit(f, in_axis_resources=i, out_axis_resources=r).lower(args)\<close> needs a mesh in
  effect, traces \<open>f\<close> on \<open>args\<close>, and checks the shardings \<open>i\<close> against the arguments
  and \<open>r\<close> against what \<open>f\<close> returns: it raises when \<open>f\<close> raises or when a sharding is
  not accepted (a mesh axis used twice in it, a dimension its mesh axes do not
  divide). The lowered computation records the mesh, the shardings, the abstract
  arguments, and the traced result: what \<open>f\<close> returns on those arguments, arrays as
  shapes and dtypes.
\<close>

record ('i, 'r, 'a, 'c) Lowered =
  low_mesh :: "Mesh option"
  low_in_axis_resources :: 'i
  low_out_axis_resources :: 'r
  low_args :: 'a
  low_computation :: 'c

definition pjit_lower ::
  "('a \<Rightarrow> 'rules ambient \<Rightarrow> 'c option) \<Rightarrow> (Mesh \<Rightarrow> 'i \<Rightarrow> 'a \<Rightarrow> bool) \<Rightarrow> (Mesh \<Rightarrow> 'r \<Rightarrow> 'c \<Rightarrow> bool)
    \<Rightarrow> 'i \<Rightarrow> 'r \<Rightarrow> 'a \<Rightarrow> 'rules ambient \<Rightarrow> ('i, 'r, 'a, 'c) Lowered option" where
  "pjit_lower f in_accepted out_accepted i r args amb =
     (case mesh_ctx amb of
        None \<Rightarrow> None
      | Some m \<Rightarrow> do {
          c \<leftarrow> f args amb;
          if in_accepted m i args \<and> out_accepted m r c
          then Some \<lparr>low_mesh = Some m, low_in_axis_resources = i,
                     low_out_axis_resources = r, low_args = args, low_computation = c\<rparr>
          else None
        })"

text \<open>
  The check of the shardings of the weights and of the chunk, leaf by leaf, against
  their shapes.
\<close>

definition args_accepted ::
  "('rules, 'phys, 'z) setup_imports_scheme \<Rightarrow> Mesh \<Rightarrow> 'phys Weights \<times> 'phys Chunk
    \<Rightarrow> ShapeDtypeStruct Weights \<times> ShapeDtypeStruct Chunk \<Rightarrow> bool" where
  "args_accepted E m r a =
     (rel_Weights (sharding_accepted E m) (fst r) (fst a) \<and>
      rel_Chunk (sharding_accepted E m) (snd r) (snd a))"

subsection \<open>\<^verbatim>\<open>setup\<close>\<close>

text \<open>
  The function is named \<open>setup_fn\<close> here. Its default argument \<^verbatim>\<open>seq_len = 32\<close> is
  the constant \<open>seq_len_default\<close>, which a call without \<^verbatim>\<open>seq_len\<close> passes.
\<close>

type_synonym 'phys init_lowered =
  "(unit, 'phys Weights \<times> 'phys Chunk, unit,
    ShapeDtypeStruct Weights \<times> ShapeDtypeStruct Chunk) Lowered"

type_synonym ('phys, 'kv) setup_result =
  "'phys init_lowered \<times> dtype \<times> HParams \<times> Mesh \<times> ShapeDtypeStruct Weights
    \<times> ShapeDtypeStruct Weights \<times> 'kv list \<times> ShapeDtypeStruct Chunk \<times> 'phys Chunk
    \<times> 'phys Weights \<times> 'phys FullChunkResult"

definition seq_len_default :: nat where
  "seq_len_default = 32"

definition setup_fn ::
  "('rules, 'phys, 'z) setup_imports_scheme \<Rightarrow> 'rules ambient \<Rightarrow> Mesh \<Rightarrow> nat
    \<Rightarrow> nat \<Rightarrow> ('phys, 'kv) setup_result option" where
  "setup_fn E amb mesh batch_size seq_len =
     (let dt = float32;
          h = \<lparr>layers = 8, embed = 16, ff = 32, heads = 16, qkv = 4, max_len = 256,
                vocab = 1024\<rparr>;
          params_logical = Weights_logical_axes E;
          chunk_logical = Chunk [None, None] [None];
          params_sharding =
            map_Weights (logical_to_physical E (rules_ctx amb)) params_logical;
          chunk_sharding = map_Chunk (logical_to_physical E (rules_ctx amb)) chunk_logical;
          result_logical = FullChunkResult_logical_axes E;
          result_sharding = map (logical_to_physical E (rules_ctx amb)) result_logical
      in do {
        model_init_lowered \<leftarrow>
          pjit_lower (\<lambda>_. eval_shape (model_init E h dt batch_size seq_len))
            (\<lambda>_ _ _. True) (args_accepted E) () (params_sharding, chunk_sharding) ()
            (with_mesh mesh amb);
        (params_pjit_shape, token_chunk_shape) \<leftarrow>
          eval_shape (model_init E h dt batch_size seq_len) (with_mesh mesh amb);
        let kv_caches = [];
        Some (model_init_lowered, dt, h, mesh, params_pjit_shape, params_pjit_shape,
              kv_caches, token_chunk_shape, chunk_sharding, params_sharding,
              result_sharding)
      })"

subsection \<open>\<^verbatim>\<open>lower\<close>\<close>

text \<open>
  \<^verbatim>\<open>fwd\<close> captures \<open>h\<close>, \<open>kv_caches\<close>, \<open>attn_sharding\<close>, \<open>batch_unsharded\<close> and
  \<open>dtype\<close>; \<^verbatim>\<open>pjit_fwd\<close> captures \<open>fwd\<close>, \<open>mesh\<close> and the three shardings.
\<close>

definition fwd ::
  "('rules, 'phys, 'attn, 'table, 'lf, 'kv, 'res, 'out) lower_imports \<Rightarrow> HParams \<Rightarrow> 'kv list \<Rightarrow> 'attn
    \<Rightarrow> bool \<Rightarrow> dtype \<Rightarrow> ShapeDtypeStruct Weights \<Rightarrow> ShapeDtypeStruct Chunk \<Rightarrow> 'res" where
  "fwd E h kv_caches attn_sharding batch_unsharded dt params token_chunk =
     infer_xmap E h (transformer_layer_weight_stationary E) params kv_caches token_chunk
       attn_sharding False False batch_unsharded dt"

definition pjit_fwd ::
  "('rules, 'phys, 'attn, 'table, 'lf, 'kv, 'res, 'out) lower_imports
    \<Rightarrow> (ShapeDtypeStruct Weights \<Rightarrow> ShapeDtypeStruct Chunk \<Rightarrow> 'res) \<Rightarrow> Mesh \<Rightarrow> 'phys Weights
    \<Rightarrow> 'phys Chunk \<Rightarrow> 'phys FullChunkResult \<Rightarrow> ShapeDtypeStruct Weights
    \<Rightarrow> ShapeDtypeStruct Chunk \<Rightarrow> 'out" where
  "pjit_fwd E fwd_fn mesh param_sharding chunk_sharding result_sharding rotated_params
     token_chunk =
     shard_map E fwd_fn mesh (param_sharding, chunk_sharding) result_sharding rotated_params
       token_chunk"

type_synonym ('phys, 'out) fwd_lowered =
  "('phys Weights \<times> 'phys Chunk, 'phys FullChunkResult,
    ShapeDtypeStruct Weights \<times> ShapeDtypeStruct Chunk, 'out) Lowered"

text \<open>
  The list \<^verbatim>\<open>lower\<close> returns holds the two lowered computations under their export
  names; they have different types, so the entries are a sum.
\<close>

definition lower ::
  "('rules, 'phys, 'attn, 'table, 'lf, 'kv, 'res, 'out) lower_imports \<Rightarrow> 'rules ambient
    \<Rightarrow> (string \<times> ('phys init_lowered + ('phys, 'out) fwd_lowered)) list option" where
  "lower E amb = do {
     device_mesh \<leftarrow> np_reshape (np_array (fake_devices 8 ''tpu'')) [2, 2, 2];
     let mesh_axis_names = [''x'', ''y'', ''z''];
     let mesh = \<lparr>devices = device_mesh, axis_names = mesh_axis_names\<rparr>;
     let batch_unsharded = False;
     let attn_sharding = AXES_YZX E;
     let rules = PartitioningRules E (make_rules_two_d E attn_sharding batch_unsharded);
     (model_init_lowered, dt, h, mesh, _, rotated_params, kv_caches, token_chunk,
        chunk_sharding, param_sharding, result_sharding) \<leftarrow>
       setup_fn E (with_rules rules amb) mesh 8 seq_len_default;
     xmap_transformer_fwd_lowered \<leftarrow>
       pjit_lower
         (\<lambda>(rotated_params, token_chunk) _.
            Some (pjit_fwd E (fwd E h kv_caches attn_sharding batch_unsharded dt) mesh
                    param_sharding chunk_sharding result_sharding rotated_params token_chunk))
         (args_accepted E) (result_accepted E)
         (param_sharding, chunk_sharding) result_sharding (rotated_params, token_chunk)
         (with_mesh mesh amb);
     Some [(''xmap_transformer_init'', Inl model_init_lowered),
           (''xmap_transformer_fwd'', Inr xmap_transformer_fwd_lowered)]
   }"

subsection \<open>The shardings of a \<^verbatim>\<open>setup\<close> result\<close>

text \<open>The last three components of the tuple \<^verbatim>\<open>setup\<close> returns.\<close>

definition shardings_of ::
  "('phys, 'kv) setup_result \<Rightarrow> 'phys Chunk \<times> 'phys Weights \<times> 'phys FullChunkResult" where
  "shardings_of t =
     (case t of (_, _, _, _, _, _, _, _, chunk_sharding, params_sharding, result_sharding) \<Rightarrow>
        (chunk_sharding, params_sharding, result_sharding))"

subsection \<open>An implementation of the imported modules\<close>

text \<open>
  Modelled from the spec: the physical target of a logical axis in the partitioning
  rule table, "a single mesh axis name, an ordered tuple of mesh axis names, or
  replicated"; the table itself maps logical axis names to targets. The module
  \<^verbatim>\<open>partitioning\<close> is not among the sources.
\<close>

datatype target = Replicated | MeshAxis string | MeshAxes "string list"

type_synonym RuleTable = "(string \<times> target) list"

text \<open>
  Modelled from the spec: the sharding resolver, for \<^verbatim>\<open>partitioning.logical_to_physical\<close>,
  which is not among the sources. "Every leaf logical-axis name is replaced by its
  physical mapping from the rule table; unannotated (\<^verbatim>\<open>None\<close>) leaves map to fully
  replicated." The table is the one of the ambient context. A name the table does
  not hold, or a context without rules, gives no sharding.
\<close>

definition resolve_axis :: "RuleTable \<Rightarrow> string option \<Rightarrow> target option" where
  "resolve_axis table ax =
     (case ax of None \<Rightarrow> Some Replicated | Some name \<Rightarrow> map_of table name)"

definition resolve :: "RuleTable option \<Rightarrow> PartitionSpec \<Rightarrow> target list option" where
  "resolve ctx spec =
     (case ctx of None \<Rightarrow> None | Some table \<Rightarrow> those (map (resolve_axis table) spec))"

text \<open>
  The check of such a sharding against a mesh and the shape of an array: the sharding
  has at most as many entries as the array has dimensions, every mesh axis it names is
  an axis of the mesh and is named once, and each dimension is a multiple of the number
  of devices along the mesh axes it is split over.
\<close>

definition axes_of :: "target \<Rightarrow> string list" where
  "axes_of t = (case t of Replicated \<Rightarrow> [] | MeshAxis a \<Rightarrow> [a] | MeshAxes as \<Rightarrow> as)"

definition axis_size :: "Mesh \<Rightarrow> string \<Rightarrow> nat" where
  "axis_size m a =
     (case map_of (zip (axis_names m) (nd_shape (devices m))) a of Some n \<Rightarrow> n | None \<Rightarrow> 0)"

definition target_accepted :: "Mesh \<Rightarrow> target list option \<Rightarrow> ShapeDtypeStruct \<Rightarrow> bool" where
  "target_accepted m phys a =
     (case phys of
        None \<Rightarrow> False
      | Some ts \<Rightarrow>
          length ts \<le> length (sds_shape a) \<and>
          distinct (concat (map axes_of ts)) \<and>
          list_all (\<lambda>ax. ax \<in> set (axis_names m)) (concat (map axes_of ts)) \<and>
          list_all (\<lambda>(t, d). d mod prod_list (map (axis_size m) (axes_of t)) = 0)
            (zip ts (sds_shape a)))"

text \<open>
  Two rule tables that differ in the target of the batch axis only: sharded over a
  mesh axis, and replicated (as the spec has it when \<^verbatim>\<open>batch_unsharded\<close> holds).
\<close>

definition table_sharded :: RuleTable where
  "table_sharded =
     [(''layers'', Replicated), (''heads'', MeshAxes [''y'', ''z'']),
      (''embed'', MeshAxis ''x''), (''vocab'', MeshAxes [''y'', ''z'']),
      (''batch'', MeshAxis ''x'')]"

definition table_unsharded :: RuleTable where
  "table_unsharded =
     [(''layers'', Replicated), (''heads'', MeshAxes [''y'', ''z'']),
      (''embed'', MeshAxis ''x''), (''vocab'', MeshAxes [''y'', ''z'']),
      (''batch'', Replicated)]"

text \<open>
  Modelled from the spec: the members of \<^verbatim>\<open>checkpoint\<close>, \<^verbatim>\<open>weights\<close>, \<^verbatim>\<open>chunk\<close> and
  \<^verbatim>\<open>partitioning\<close> that \<^verbatim>\<open>setup\<close> uses, none of them among the sources. The logical
  axes follow the shapes of the spec's data model, dimensions without a name there
  being \<^verbatim>\<open>None\<close>. The spec leaves the arithmetic of the two per-head widths open; one
  convention is fixed here. This implementation serves to evaluate the model at
  concrete inputs.
\<close>

definition example_imports :: "(RuleTable, target list option) setup_imports" where
  "example_imports =
     \<lparr>q_wi_per_head = (\<lambda>h. 2 * ff h div heads h + qkv h),
      o_wo_per_head = (\<lambda>h. ff h div heads h + qkv h),
      Weights_logical_axes =
        Weights (Layer [Some ''layers'', Some ''heads'', Some ''embed'', None]
                       [Some ''layers'', Some ''embed'', None, None]
                       [Some ''layers'', Some ''heads'', None, Some ''embed''])
                [None, None] [None, None] [Some ''vocab'', Some ''embed''],
      FullChunkResult_logical_axes = [[Some ''batch'', None, Some ''vocab'']],
      logical_to_physical = resolve,
      sharding_accepted = target_accepted\<rparr>"

text \<open>
  Modelled from the spec: the further members \<^verbatim>\<open>lower\<close> uses, none of them among the
  sources. The rule table has the batch axis replicated when \<^verbatim>\<open>batch_unsharded\<close> holds;
  the rules context holds the table; the inference driver returns one result of shape
  \<open>[batch, seq_len, vocab]\<close>; \<^verbatim>\<open>shard_map\<close> returns what the function it maps returns on
  the whole arrays. The strategy and the layer function are their names.
\<close>

definition example_lower_imports ::
  "(RuleTable, target list option, string, RuleTable, string, unit, ShapeDtypeStruct list,
    ShapeDtypeStruct list) lower_imports" where
  "example_lower_imports =
     \<lparr>q_wi_per_head = q_wi_per_head example_imports,
      o_wo_per_head = o_wo_per_head example_imports,
      Weights_logical_axes = Weights_logical_axes example_imports,
      FullChunkResult_logical_axes = FullChunkResult_logical_axes example_imports,
      logical_to_physical = resolve,
      sharding_accepted = target_accepted,
      AXES_YZX = ''AXES_YZX'',
      make_rules_two_d =
        (\<lambda>attn_sharding batch_unsharded.
           if batch_unsharded then table_unsharded else table_sharded),
      PartitioningRules = (\<lambda>table. table),
      transformer_layer_weight_stationary = ''transformer_layer_weight_stationary'',
      infer_xmap =
        (\<lambda>h layer_fn params kv_caches token_chunk attn_all_to_all latency_collectives
            shard_seqlen_vs_batch batch_unsharded intermediate_dtype.
           [\<lparr>sds_shape = sds_shape (tokens token_chunk) @ [vocab h],
             sds_dtype = intermediate_dtype\<rparr>]),
      shard_map = (\<lambda>f mesh in_specs out_specs params token_chunk. f params token_chunk),
      result_accepted = (\<lambda>m. list_all2 (target_accepted m))\<rparr>"

definition example_mesh :: Mesh where
  "example_mesh =
     \<lparr>devices = \<lparr>nd_shape = [2, 2, 2], nd_items = fake_devices 8 ''tpu''\<rparr>,
      axis_names = [''x'', ''y'', ''z'']\<rparr>"

section \<open>Closed forms\<close>

text \<open>
  What \<^verbatim>\<open>model_init\<close>, \<^verbatim>\<open>setup\<close> and \<^verbatim>\<open>lower\<close> return, written out: \<^verbatim>\<open>setup\<close> and
  \<^verbatim>\<open>lower\<close> return exactly when the lowering accepts the shardings.
\<close>

lemma random_split_5:
  "random_split k 5 = [Subkey k 5 0, Subkey k 5 1, Subkey k 5 2, Subkey k 5 3, Subkey k 5 4]"
  by (simp add: random_split_def upt_rec)

lemma reshape_arange:
  "jnp_reshape (jnp_arange (b * s)) [b, s] =
     Some \<lparr>shape = [b, s], dtype = int32,
           content = Ints (map (\<lambda>i. wrap_int32 (int i)) [0..<b * s])\<rparr>"
  by (simp add: jnp_reshape_def jnp_arange_def)

lemma model_init_eq:
  "model_init E h dt b s amb =
     Some (Weights
             (Layer (random_normal (Subkey (PRNGKey 0) 5 1)
                       [layers h, heads h, embed h, q_wi_per_head E h] dt)
                    (random_normal (Subkey (PRNGKey 0) 5 2) [layers h, embed h, 1, 2 * qkv h] dt)
                    (random_normal (Subkey (PRNGKey 0) 5 3)
                       [layers h, heads h, o_wo_per_head E h, embed h] dt))
             (jnp_ones [max_len h, qkv h div 2] dt)
             (jnp_ones [max_len h, qkv h div 2] dt)
             (random_normal (Subkey (PRNGKey 0) 5 4) [vocab h, embed h] dt),
           Chunk \<lparr>shape = [b, s], dtype = int32,
                   content = Ints (map (\<lambda>i. wrap_int32 (int i)) [0..<b * s])\<rparr>
                 (jnp_array (replicate b (int s))))"
  by (simp add: model_init_def random_split_5 reshape_arange Let_def)

lemma eval_shape_model_init:
  "eval_shape (model_init E h dt b s) amb =
     Some (Weights
             (Layer \<lparr>sds_shape = [layers h, heads h, embed h, q_wi_per_head E h], sds_dtype = dt\<rparr>
                    \<lparr>sds_shape = [layers h, embed h, 1, 2 * qkv h], sds_dtype = dt\<rparr>
                    \<lparr>sds_shape = [layers h, heads h, o_wo_per_head E h, embed h],
                      sds_dtype = dt\<rparr>)
             \<lparr>sds_shape = [max_len h, qkv h div 2], sds_dtype = dt\<rparr>
             \<lparr>sds_shape = [max_len h, qkv h div 2], sds_dtype = dt\<rparr>
             \<lparr>sds_shape = [vocab h, embed h], sds_dtype = dt\<rparr>,
           Chunk \<lparr>sds_shape = [b, s], sds_dtype = int32\<rparr>
                 \<lparr>sds_shape = [b], sds_dtype = (if b = 0 then float32 else int32)\<rparr>)"
  by (simp add: eval_shape_def model_init_eq aval_def random_normal_def jnp_ones_def
      jnp_array_def)

lemma eval_shape_returns: "\<exists>P T. eval_shape (model_init E h dt b s) amb = Some (P, T)"
  by (simp add: eval_shape_model_init)

lemma eval_shape_ambient:
  "eval_shape (model_init E h dt b s) amb = eval_shape (model_init E h dt b s) amb'"
  by (simp add: eval_shape_model_init)

lemma device_mesh_eq:
  "np_reshape (np_array (fake_devices 8 ''tpu'')) [2, 2, 2] =
     Some \<lparr>nd_shape = [2, 2, 2], nd_items = fake_devices 8 ''tpu''\<rparr>"
  by (simp add: np_reshape_def np_array_def fake_devices_def)

lemma setup_fn_eq:
  assumes "eval_shape (model_init E \<lparr>layers = 8, embed = 16, ff = 32, heads = 16, qkv = 4,
             max_len = 256, vocab = 1024\<rparr> float32 b s) amb' = Some (P, T)"
  shows "setup_fn E amb mesh b s =
     (let g = logical_to_physical E (rules_ctx amb);
          ps = map_Weights g (Weights_logical_axes E);
          cs = map_Chunk g (Chunk [None, None] [None]);
          rs = map g (FullChunkResult_logical_axes E)
      in if args_accepted E mesh (ps, cs) (P, T)
         then Some (\<lparr>low_mesh = Some mesh, low_in_axis_resources = (),
                      low_out_axis_resources = (ps, cs), low_args = (),
                      low_computation = (P, T)\<rparr>,
                    float32,
                    \<lparr>layers = 8, embed = 16, ff = 32, heads = 16, qkv = 4, max_len = 256,
                      vocab = 1024\<rparr>,
                    mesh, P, P, [], T, cs, ps, rs)
         else None)"
proof -
  have "eval_shape (model_init E \<lparr>layers = 8, embed = 16, ff = 32, heads = 16, qkv = 4,
          max_len = 256, vocab = 1024\<rparr> float32 b s) (with_mesh mesh amb) = Some (P, T)"
    using assms eval_shape_ambient by metis
  then show ?thesis
    by (simp add: setup_fn_def pjit_lower_def with_mesh_def Let_def)
qed

lemma lower_eq:
  assumes "eval_shape (model_init E \<lparr>layers = 8, embed = 16, ff = 32, heads = 16, qkv = 4,
             max_len = 256, vocab = 1024\<rparr> float32 8 32) amb' = Some (P, T)"
  shows "lower E amb =
     (let H = \<lparr>layers = 8, embed = 16, ff = 32, heads = 16, qkv = 4, max_len = 256,
                vocab = 1024\<rparr>;
          M = \<lparr>devices = \<lparr>nd_shape = [2, 2, 2], nd_items = fake_devices 8 ''tpu''\<rparr>,
                axis_names = [''x'', ''y'', ''z'']\<rparr>;
          R = PartitioningRules E (make_rules_two_d E (AXES_YZX E) False);
          ps = map_Weights (logical_to_physical E (Some R)) (Weights_logical_axes E);
          cs = map_Chunk (logical_to_physical E (Some R)) (Chunk [None, None] [None]);
          rs = map (logical_to_physical E (Some R)) (FullChunkResult_logical_axes E);
          out = shard_map E (fwd E H [] (AXES_YZX E) False float32) M (ps, cs) rs P T
      in if args_accepted E M (ps, cs) (P, T) \<and> result_accepted E M rs out
         then Some [(''xmap_transformer_init'',
                     Inl \<lparr>low_mesh = Some M, low_in_axis_resources = (),
                           low_out_axis_resources = (ps, cs), low_args = (),
                           low_computation = (P, T)\<rparr>),
                    (''xmap_transformer_fwd'',
                     Inr \<lparr>low_mesh = Some M, low_in_axis_resources = (ps, cs),
                           low_out_axis_resources = rs, low_args = (P, T),
                           low_computation = out\<rparr>)]
         else None)"
  by (simp add: lower_def device_mesh_eq setup_fn_eq [OF assms] seq_len_default_def
      with_rules_def with_mesh_def pjit_lower_def pjit_fwd_def Let_def)

lemma fwd_abs:
  "fwd E h kv_caches a b dt =
     (\<lambda>params token_chunk.
        infer_xmap E h (transformer_layer_weight_stationary E) params kv_caches token_chunk
          a False False b dt)"
  by (intro ext) (simp add: fwd_def)

lemma lower_accepted:
  assumes "lower E amb \<noteq> None"
    and "eval_shape (model_init E \<lparr>layers = 8, embed = 16, ff = 32, heads = 16, qkv = 4,
           max_len = 256, vocab = 1024\<rparr> float32 8 32) amb' = Some (P, T)"
  shows "args_accepted E
           \<lparr>devices = \<lparr>nd_shape = [2, 2, 2], nd_items = fake_devices 8 ''tpu''\<rparr>,
             axis_names = [''x'', ''y'', ''z'']\<rparr>
           (map_Weights
              (logical_to_physical E
                 (Some (PartitioningRules E (make_rules_two_d E (AXES_YZX E) False))))
              (Weights_logical_axes E),
            map_Chunk
              (logical_to_physical E
                 (Some (PartitioningRules E (make_rules_two_d E (AXES_YZX E) False))))
              (Chunk [None, None] [None]))
           (P, T)"
    and "result_accepted E
           \<lparr>devices = \<lparr>nd_shape = [2, 2, 2], nd_items = fake_devices 8 ''tpu''\<rparr>,
             axis_names = [''x'', ''y'', ''z'']\<rparr>
           (map (logical_to_physical E
                   (Some (PartitioningRules E (make_rules_two_d E (AXES_YZX E) False))))
              (FullChunkResult_logical_axes E))
           (shard_map E
              (fwd E \<lparr>layers = 8, embed = 16, ff = 32, heads = 16, qkv = 4, max_len = 256,
                       vocab = 1024\<rparr> [] (AXES_YZX E) False float32)
              \<lparr>devices = \<lparr>nd_shape = [2, 2, 2], nd_items = fake_devices 8 ''tpu''\<rparr>,
                axis_names = [''x'', ''y'', ''z'']\<rparr>
              (map_Weights
                 (logical_to_physical E
                    (Some (PartitioningRules E (make_rules_two_d E (AXES_YZX E) False))))
                 (Weights_logical_axes E),
               map_Chunk
                 (logical_to_physical E
                    (Some (PartitioningRules E (make_rules_two_d E (AXES_YZX E) False))))
                 (Chunk [None, None] [None]))
              (map (logical_to_physical E
                      (Some (PartitioningRules E (make_rules_two_d E (AXES_YZX E) False))))
                 (FullChunkResult_logical_axes E))
              P T)"
  using assms(1) unfolding lower_eq [OF assms(2)] Let_def by (simp_all split: if_splits)

lemma setup_accepted:
  assumes "setup_fn E amb mesh b s \<noteq> None"
    and "eval_shape (model_init E \<lparr>layers = 8, embed = 16, ff = 32, heads = 16, qkv = 4,
           max_len = 256, vocab = 1024\<rparr> float32 b s) amb' = Some (P, T)"
  shows "args_accepted E mesh
           (map_Weights (logical_to_physical E (rules_ctx amb)) (Weights_logical_axes E),
            map_Chunk (logical_to_physical E (rules_ctx amb)) (Chunk [None, None] [None]))
           (P, T)"
  using assms(1) unfolding setup_fn_eq [OF assms(2)] Let_def by (simp split: if_splits)

lemma wrap_int32_le: "0 \<le> x \<Longrightarrow> wrap_int32 x \<le> x"
proof -
  assume "0 \<le> x"
  then have "(x + 2147483648) mod 4294967296 \<le> x + 2147483648"
    by (intro zmod_le_nonneg_dividend) simp
  then show ?thesis by (simp add: wrap_int32_def)
qed

lemma wrap_int32_id: "0 \<le> x \<Longrightarrow> x < 2147483648 \<Longrightarrow> wrap_int32 x = x"
  by (simp add: wrap_int32_def)

section \<open>The example implementation returns\<close>

lemma example_accepted_sharded:
  "args_accepted example_lower_imports example_mesh
     (map_Weights (resolve (Some table_sharded)) (Weights_logical_axes example_lower_imports),
      map_Chunk (resolve (Some table_sharded)) (Chunk [None, None] [None]))
     (Weights
        (Layer \<lparr>sds_shape = [8, 16, 16, 8], sds_dtype = float32\<rparr>
               \<lparr>sds_shape = [8, 16, 1, 8], sds_dtype = float32\<rparr>
               \<lparr>sds_shape = [8, 16, 6, 16], sds_dtype = float32\<rparr>)
        \<lparr>sds_shape = [256, 2], sds_dtype = float32\<rparr>
        \<lparr>sds_shape = [256, 2], sds_dtype = float32\<rparr>
        \<lparr>sds_shape = [1024, 16], sds_dtype = float32\<rparr>,
      Chunk \<lparr>sds_shape = [b, s], sds_dtype = int32\<rparr> \<lparr>sds_shape = [b], sds_dtype = dt\<rparr>)"
  by (simp add: args_accepted_def example_lower_imports_def example_imports_def resolve_def
      resolve_axis_def table_sharded_def target_accepted_def axes_of_def axis_size_def
      example_mesh_def)

lemma example_setup_returns:
  "setup_fn example_lower_imports \<lparr>rules_ctx = Some table_sharded, mesh_ctx = None\<rparr>
     example_mesh 8 32 \<noteq> None"
  unfolding setup_fn_eq [OF eval_shape_model_init] Let_def
  using example_accepted_sharded
  by (simp add: example_lower_imports_def example_imports_def)

lemma example_lower_returns:
  "lower example_lower_imports amb \<noteq> None"
proof -
  have M: "\<lparr>devices = \<lparr>nd_shape = [2, 2, 2], nd_items = fake_devices 8 ''tpu''\<rparr>,
            axis_names = [''x'', ''y'', ''z'']\<rparr> = example_mesh"
    by (simp add: example_mesh_def)
  have R: "PartitioningRules example_lower_imports
             (make_rules_two_d example_lower_imports (AXES_YZX example_lower_imports) False) =
           table_sharded"
    by (simp add: example_lower_imports_def)
  have l2p: "logical_to_physical example_lower_imports = resolve"
    by (simp add: example_lower_imports_def)
  have res: "result_accepted example_lower_imports example_mesh
      (map (resolve (Some table_sharded)) (FullChunkResult_logical_axes example_lower_imports))
      (shard_map example_lower_imports
         (fwd example_lower_imports
            \<lparr>layers = 8, embed = 16, ff = 32, heads = 16, qkv = 4, max_len = 256,
              vocab = 1024\<rparr> [] (AXES_YZX example_lower_imports) False float32)
         example_mesh X Y Z
         (Chunk \<lparr>sds_shape = [8, 32], sds_dtype = int32\<rparr> \<lparr>sds_shape = [8], sds_dtype = int32\<rparr>))"
    for X Y Z
    by (simp add: fwd_def example_lower_imports_def example_imports_def resolve_def
        resolve_axis_def table_sharded_def target_accepted_def axes_of_def axis_size_def
        example_mesh_def)
  show ?thesis
    unfolding lower_eq [OF eval_shape_model_init] Let_def M R l2p
    using example_accepted_sharded res
    by (simp add: example_lower_imports_def example_imports_def)
qed


section \<open>The claims\<close>

text \<open>
  C1. The exporter's end-to-end configuration. Whenever \<^verbatim>\<open>lower\<close> returns: it has
  reshaped eight fake devices into the mesh \<open>M\<close> of shape \<open>(2, 2, 2)\<close> with the axis
  names \<open>x\<close>, \<open>y\<close>, \<open>z\<close>; it has called \<^verbatim>\<open>setup\<close> on \<open>M\<close> with \<open>batch_size = 8\<close> and
  the default \<open>seq_len = 32\<close> inside the rules context \<open>R\<close>; that call has returned the
  hyperparameters \<open>layers = 8, embed = 16, ff = 32, heads = 16, qkv = 4, max_len =
  256, vocab = 1024\<close> and the shapes of \<^verbatim>\<open>model_init\<close> under them; and \<^verbatim>\<open>lower\<close> returns
  exactly two entries: \<open>xmap_transformer_init\<close>, the lowered init of that call, and
  \<open>xmap_transformer_fwd\<close>, the forward function lowered on those shapes, which is
  \<^verbatim>\<open>shard_map\<close> of the call of \<^verbatim>\<open>infer_xmap\<close> with these hyperparameters, the empty
  cache, the strategy \<open>AXES_YZX\<close> and \<open>float32\<close>, under the shardings of \<open>R\<close>, its
  output sharding being the resolved logical axes of \<^verbatim>\<open>FullChunkResult\<close>.
\<close>

theorem lower_end_to_end:
  fixes E :: "('rules, 'phys, 'attn, 'table, 'lf, 'kv, 'res, 'out) lower_imports"
  assumes "lower E amb \<noteq> None"
  shows
  "let H = \<lparr>layers = 8, embed = 16, ff = 32, heads = 16, qkv = 4, max_len = 256,
             vocab = 1024\<rparr>;
       M = \<lparr>devices = \<lparr>nd_shape = [2, 2, 2], nd_items = fake_devices 8 ''tpu''\<rparr>,
             axis_names = [''x'', ''y'', ''z'']\<rparr>;
       R = PartitioningRules E (make_rules_two_d E (AXES_YZX E) False);
       ps = map_Weights (logical_to_physical E (Some R)) (Weights_logical_axes E);
       cs = map_Chunk (logical_to_physical E (Some R)) (Chunk [None, None] [None]);
       rs = map (logical_to_physical E (Some R)) (FullChunkResult_logical_axes E);
       P = Weights
             (Layer \<lparr>sds_shape = [8, 16, 16, q_wi_per_head E H], sds_dtype = float32\<rparr>
                    \<lparr>sds_shape = [8, 16, 1, 8], sds_dtype = float32\<rparr>
                    \<lparr>sds_shape = [8, 16, o_wo_per_head E H, 16], sds_dtype = float32\<rparr>)
             \<lparr>sds_shape = [256, 2], sds_dtype = float32\<rparr>
             \<lparr>sds_shape = [256, 2], sds_dtype = float32\<rparr>
             \<lparr>sds_shape = [1024, 16], sds_dtype = float32\<rparr>;
       T = Chunk \<lparr>sds_shape = [8, 32], sds_dtype = int32\<rparr> \<lparr>sds_shape = [8], sds_dtype = int32\<rparr>;
       init_lowered =
         \<lparr>low_mesh = Some M, low_in_axis_resources = (), low_out_axis_resources = (ps, cs),
           low_args = (), low_computation = (P, T)\<rparr>
   in np_reshape (np_array (fake_devices 8 ''tpu'')) [2, 2, 2] = Some (devices M) \<and>
      seq_len_default = 32 \<and>
      eval_shape (model_init E H float32 8 seq_len_default) (with_mesh M (with_rules R amb)) =
        Some (P, T) \<and>
      setup_fn E (with_rules R amb) M 8 seq_len_default =
        Some (init_lowered, float32, H, M, P, P, ([] :: 'kv list), T, cs, ps, rs) \<and>
      lower E amb =
        Some [(''xmap_transformer_init'', Inl init_lowered),
              (''xmap_transformer_fwd'',
               Inr \<lparr>low_mesh = Some M, low_in_axis_resources = (ps, cs),
                     low_out_axis_resources = rs, low_args = (P, T),
                     low_computation =
                       shard_map E
                         (\<lambda>params token_chunk.
                            infer_xmap E H (transformer_layer_weight_stationary E) params []
                              token_chunk (AXES_YZX E) False False False float32)
                         M (ps, cs) rs P T\<rparr>)]"
proof -
  note es = eval_shape_model_init [of E "\<lparr>layers = 8, embed = 16, ff = 32, heads = 16, qkv = 4,
    max_len = 256, vocab = 1024\<rparr>" float32 8 32]
  note acc = lower_accepted [OF assms es]
  show ?thesis
    unfolding Let_def
    using acc
    by (simp add: lower_eq [OF es] setup_fn_eq [OF es] Let_def seq_len_default_def
        device_mesh_eq with_rules_def es fwd_abs)
qed

text \<open>The example implementation: \<^verbatim>\<open>lower\<close> returns, with the two entries.\<close>

theorem lower_end_to_end_witness:
  "lower example_lower_imports \<lparr>rules_ctx = None, mesh_ctx = None\<rparr> \<noteq> None \<and>
   map_option (map fst) (lower example_lower_imports \<lparr>rules_ctx = None, mesh_ctx = None\<rparr>) =
     Some [''xmap_transformer_init'', ''xmap_transformer_fwd'']"
proof -
  have r: "lower example_lower_imports \<lparr>rules_ctx = None, mesh_ctx = None\<rparr> \<noteq> None"
    by (rule example_lower_returns)
  from lower_end_to_end [OF r] obtain a b where
    "lower example_lower_imports \<lparr>rules_ctx = None, mesh_ctx = None\<rparr> =
       Some [(''xmap_transformer_init'', a), (''xmap_transformer_fwd'', b)]"
    unfolding Let_def by blast
  with r show ?thesis by simp
qed

text \<open>
  C3. One rule table for the three containers. Whenever \<^verbatim>\<open>setup\<close> returns, the
  shardings of the weights, of the chunk and of the result are \<^verbatim>\<open>tree_map\<close>s of the
  same function, \<^verbatim>\<open>logical_to_physical\<close> under the rules of the one ambient context of
  the call; whenever \<^verbatim>\<open>lower\<close> returns, that context held the rules built once from
  \<^verbatim>\<open>make_rules_two_d\<close>, and the shardings of both lowered computations are resolved
  under them.
\<close>

theorem shardings_from_one_table:
  fixes E :: "('rules, 'phys, 'attn, 'table, 'lf, 'kv, 'res, 'out) lower_imports"
  shows
  "(setup_fn E amb mesh b s \<noteq> (None :: ('phys, 'kv) setup_result option) \<longrightarrow>
      (let g = logical_to_physical E (rules_ctx amb)
       in \<exists>init_lowered h params_shape token_chunk_shape.
            setup_fn E amb mesh b s =
              Some (init_lowered, float32, h, mesh, params_shape, params_shape, [],
                    token_chunk_shape,
                    map_Chunk g (Chunk [None, None] [None]),
                    map_Weights g (Weights_logical_axes E),
                    map g (FullChunkResult_logical_axes E)))) \<and>
   (lower E amb \<noteq> None \<longrightarrow>
      (let R = PartitioningRules E (make_rules_two_d E (AXES_YZX E) False);
           f = logical_to_physical E (Some R)
       in \<exists>init_lowered fwd_lowered.
            lower E amb =
              Some [(''xmap_transformer_init'', Inl init_lowered),
                    (''xmap_transformer_fwd'', Inr fwd_lowered)] \<and>
            low_out_axis_resources init_lowered =
              (map_Weights f (Weights_logical_axes E),
               map_Chunk f (Chunk [None, None] [None])) \<and>
            low_in_axis_resources fwd_lowered =
              (map_Weights f (Weights_logical_axes E),
               map_Chunk f (Chunk [None, None] [None])) \<and>
            low_out_axis_resources fwd_lowered = map f (FullChunkResult_logical_axes E)))"
proof (intro conjI impI)
  assume r: "setup_fn E amb mesh b s \<noteq> None"
  obtain P T where es:
    "eval_shape (model_init E \<lparr>layers = 8, embed = 16, ff = 32, heads = 16, qkv = 4,
       max_len = 256, vocab = 1024\<rparr> float32 b s) amb = Some (P, T)"
    using eval_shape_returns by blast
  show "let g = logical_to_physical E (rules_ctx amb)
       in \<exists>init_lowered h params_shape token_chunk_shape.
            setup_fn E amb mesh b s =
              Some (init_lowered, float32, h, mesh, params_shape, params_shape, [],
                    token_chunk_shape,
                    map_Chunk g (Chunk [None, None] [None]),
                    map_Weights g (Weights_logical_axes E),
                    map g (FullChunkResult_logical_axes E))"
    using setup_accepted [OF r es] by (simp add: setup_fn_eq [OF es] Let_def)
next
  assume r: "lower E amb \<noteq> None"
  obtain P T where es:
    "eval_shape (model_init E \<lparr>layers = 8, embed = 16, ff = 32, heads = 16, qkv = 4,
       max_len = 256, vocab = 1024\<rparr> float32 8 32) amb = Some (P, T)"
    using eval_shape_returns by blast
  show "let R = PartitioningRules E (make_rules_two_d E (AXES_YZX E) False);
           f = logical_to_physical E (Some R)
       in \<exists>init_lowered fwd_lowered.
            lower E amb =
              Some [(''xmap_transformer_init'', Inl init_lowered),
                    (''xmap_transformer_fwd'', Inr fwd_lowered)] \<and>
            low_out_axis_resources init_lowered =
              (map_Weights f (Weights_logical_axes E),
               map_Chunk f (Chunk [None, None] [None])) \<and>
            low_in_axis_resources fwd_lowered =
              (map_Weights f (Weights_logical_axes E),
               map_Chunk f (Chunk [None, None] [None])) \<and>
            low_out_axis_resources fwd_lowered = map f (FullChunkResult_logical_axes E)"
    using lower_accepted [OF r es] by (simp add: lower_eq [OF es] Let_def)
qed

text \<open>The example implementation, under the rules \<open>table_sharded\<close>.\<close>

theorem shardings_from_one_table_witness:
  "setup_fn example_lower_imports \<lparr>rules_ctx = Some table_sharded, mesh_ctx = None\<rparr>
     example_mesh 8 32 \<noteq> (None :: (target list option, unit) setup_result option) \<and>
   map_option shardings_of
     (setup_fn example_lower_imports \<lparr>rules_ctx = Some table_sharded, mesh_ctx = None\<rparr>
        example_mesh 8 32 :: (target list option, unit) setup_result option) =
     Some (map_Chunk (resolve (Some table_sharded)) (Chunk [None, None] [None]),
           map_Weights (resolve (Some table_sharded))
             (Weights_logical_axes example_lower_imports),
           map (resolve (Some table_sharded))
             (FullChunkResult_logical_axes example_lower_imports)) \<and>
   lower example_lower_imports \<lparr>rules_ctx = Some table_sharded, mesh_ctx = None\<rparr> \<noteq> None \<and>
   (\<exists>init_lowered fwd_lowered.
      lower example_lower_imports \<lparr>rules_ctx = Some table_sharded, mesh_ctx = None\<rparr> =
        Some [(''xmap_transformer_init'', Inl init_lowered),
              (''xmap_transformer_fwd'', Inr fwd_lowered)] \<and>
      low_out_axis_resources fwd_lowered =
        map (resolve (Some table_sharded)) (FullChunkResult_logical_axes example_lower_imports))"
proof -
  have r1: "setup_fn example_lower_imports \<lparr>rules_ctx = Some table_sharded, mesh_ctx = None\<rparr>
     example_mesh 8 32 \<noteq> (None :: (target list option, unit) setup_result option)"
    by (rule example_setup_returns)
  have r2: "lower example_lower_imports \<lparr>rules_ctx = Some table_sharded, mesh_ctx = None\<rparr> \<noteq>
      None"
    by (rule example_lower_returns)
  have l2p: "logical_to_physical example_lower_imports = resolve"
    and R: "PartitioningRules example_lower_imports
             (make_rules_two_d example_lower_imports (AXES_YZX example_lower_imports) False) =
           table_sharded"
    by (simp_all add: example_lower_imports_def)
  note th = shardings_from_one_table [of example_lower_imports
      "\<lparr>rules_ctx = Some table_sharded, mesh_ctx = None\<rparr>" example_mesh 8 32,
      unfolded Let_def l2p R]
  from th r1 have s: "\<exists>init_lowered h params_shape token_chunk_shape.
      setup_fn example_lower_imports \<lparr>rules_ctx = Some table_sharded, mesh_ctx = None\<rparr>
        example_mesh 8 32 =
      Some (init_lowered, float32, h, example_mesh, params_shape, params_shape,
            ([] :: unit list), token_chunk_shape,
            map_Chunk (resolve (Some table_sharded)) (Chunk [None, None] [None]),
            map_Weights (resolve (Some table_sharded))
              (Weights_logical_axes example_lower_imports),
            map (resolve (Some table_sharded))
              (FullChunkResult_logical_axes example_lower_imports))"
    by auto
  from th r2 have l: "\<exists>init_lowered fwd_lowered.
      lower example_lower_imports \<lparr>rules_ctx = Some table_sharded, mesh_ctx = None\<rparr> =
        Some [(''xmap_transformer_init'', Inl init_lowered),
              (''xmap_transformer_fwd'', Inr fwd_lowered)] \<and>
      low_out_axis_resources fwd_lowered =
        map (resolve (Some table_sharded)) (FullChunkResult_logical_axes example_lower_imports)"
    by blast
  from s have s': "map_option shardings_of
     (setup_fn example_lower_imports \<lparr>rules_ctx = Some table_sharded, mesh_ctx = None\<rparr>
        example_mesh 8 32 :: (target list option, unit) setup_result option) =
     Some (map_Chunk (resolve (Some table_sharded)) (Chunk [None, None] [None]),
           map_Weights (resolve (Some table_sharded))
             (Weights_logical_axes example_lower_imports),
           map (resolve (Some table_sharded))
             (FullChunkResult_logical_axes example_lower_imports))"
    by (auto simp: shardings_of_def)
  from r1 r2 s' l show ?thesis by blast
qed

text \<open>
  C4. Whenever \<^verbatim>\<open>lower\<close> returns, the attention strategy \<open>a\<close> and the flag \<open>b\<close> that it
  gave to \<^verbatim>\<open>make_rules_two_d\<close>, whose rules resolve every sharding of the two lowered
  computations, are the \<^verbatim>\<open>attn_all_to_all\<close> and \<^verbatim>\<open>batch_unsharded\<close> arguments of the
  call of \<^verbatim>\<open>infer_xmap\<close> in the function given to \<^verbatim>\<open>shard_map\<close>.
\<close>

theorem strategy_matches_rules:
  assumes "lower E amb \<noteq> None"
  shows
  "let a = AXES_YZX E;
       b = False;
       R = PartitioningRules E (make_rules_two_d E a b);
       f = logical_to_physical E (Some R)
   in \<exists>init_lowered fwd_lowered h kv_caches latency_collectives shard_seqlen_vs_batch dt M P tc.
        lower E amb =
          Some [(''xmap_transformer_init'', Inl init_lowered),
                (''xmap_transformer_fwd'', Inr fwd_lowered)] \<and>
        low_out_axis_resources init_lowered =
          (map_Weights f (Weights_logical_axes E), map_Chunk f (Chunk [None, None] [None])) \<and>
        low_in_axis_resources fwd_lowered =
          (map_Weights f (Weights_logical_axes E), map_Chunk f (Chunk [None, None] [None])) \<and>
        low_out_axis_resources fwd_lowered = map f (FullChunkResult_logical_axes E) \<and>
        low_computation fwd_lowered =
          shard_map E
            (\<lambda>params token_chunk.
               infer_xmap E h (transformer_layer_weight_stationary E) params kv_caches
                 token_chunk a latency_collectives shard_seqlen_vs_batch b dt)
            M (low_in_axis_resources fwd_lowered) (low_out_axis_resources fwd_lowered) P tc"
proof -
  obtain P T where es:
    "eval_shape (model_init E \<lparr>layers = 8, embed = 16, ff = 32, heads = 16, qkv = 4,
       max_len = 256, vocab = 1024\<rparr> float32 8 32) amb = Some (P, T)"
    using eval_shape_returns by blast
  have l: "lower E amb =
      Some [(''xmap_transformer_init'',
             Inl \<lparr>low_mesh =
                     Some \<lparr>devices = \<lparr>nd_shape = [2, 2, 2], nd_items = fake_devices 8 ''tpu''\<rparr>,
                           axis_names = [''x'', ''y'', ''z'']\<rparr>,
                   low_in_axis_resources = (),
                   low_out_axis_resources =
                     (map_Weights
                        (logical_to_physical E
                           (Some (PartitioningRules E (make_rules_two_d E (AXES_YZX E) False))))
                        (Weights_logical_axes E),
                      map_Chunk
                        (logical_to_physical E
                           (Some (PartitioningRules E (make_rules_two_d E (AXES_YZX E) False))))
                        (Chunk [None, None] [None])),
                   low_args = (), low_computation = (P, T)\<rparr>),
            (''xmap_transformer_fwd'',
             Inr \<lparr>low_mesh =
                     Some \<lparr>devices = \<lparr>nd_shape = [2, 2, 2], nd_items = fake_devices 8 ''tpu''\<rparr>,
                           axis_names = [''x'', ''y'', ''z'']\<rparr>,
                   low_in_axis_resources =
                     (map_Weights
                        (logical_to_physical E
                           (Some (PartitioningRules E (make_rules_two_d E (AXES_YZX E) False))))
                        (Weights_logical_axes E),
                      map_Chunk
                        (logical_to_physical E
                           (Some (PartitioningRules E (make_rules_two_d E (AXES_YZX E) False))))
                        (Chunk [None, None] [None])),
                   low_out_axis_resources =
                     map (logical_to_physical E
                            (Some (PartitioningRules E (make_rules_two_d E (AXES_YZX E) False))))
                       (FullChunkResult_logical_axes E),
                   low_args = (P, T),
                   low_computation =
                     shard_map E
                       (fwd E \<lparr>layers = 8, embed = 16, ff = 32, heads = 16, qkv = 4,
                                max_len = 256, vocab = 1024\<rparr> [] (AXES_YZX E) False float32)
                       \<lparr>devices = \<lparr>nd_shape = [2, 2, 2], nd_items = fake_devices 8 ''tpu''\<rparr>,
                         axis_names = [''x'', ''y'', ''z'']\<rparr>
                       (map_Weights
                          (logical_to_physical E
                             (Some (PartitioningRules E
                                (make_rules_two_d E (AXES_YZX E) False))))
                          (Weights_logical_axes E),
                        map_Chunk
                          (logical_to_physical E
                             (Some (PartitioningRules E
                                (make_rules_two_d E (AXES_YZX E) False))))
                          (Chunk [None, None] [None]))
                       (map (logical_to_physical E
                               (Some (PartitioningRules E
                                  (make_rules_two_d E (AXES_YZX E) False))))
                          (FullChunkResult_logical_axes E))
                       P T\<rparr>)]"
    using lower_accepted [OF assms es] unfolding lower_eq [OF es] Let_def by simp
  show ?thesis
    unfolding Let_def l fwd_abs by fastforce
qed

text \<open>The example implementation, for which \<^verbatim>\<open>lower\<close> returns.\<close>

theorem strategy_matches_rules_witness:
  "lower example_lower_imports \<lparr>rules_ctx = None, mesh_ctx = None\<rparr> \<noteq> None \<and>
   (let a = AXES_YZX example_lower_imports;
        b = False;
        R = PartitioningRules example_lower_imports (make_rules_two_d example_lower_imports a b);
        f = logical_to_physical example_lower_imports (Some R)
    in \<exists>init_lowered fwd_lowered h kv_caches latency_collectives shard_seqlen_vs_batch dt M P tc.
         lower example_lower_imports \<lparr>rules_ctx = None, mesh_ctx = None\<rparr> =
           Some [(''xmap_transformer_init'', Inl init_lowered),
                 (''xmap_transformer_fwd'', Inr fwd_lowered)] \<and>
         low_out_axis_resources init_lowered =
           (map_Weights f (Weights_logical_axes example_lower_imports),
            map_Chunk f (Chunk [None, None] [None])) \<and>
         low_in_axis_resources fwd_lowered =
           (map_Weights f (Weights_logical_axes example_lower_imports),
            map_Chunk f (Chunk [None, None] [None])) \<and>
         low_out_axis_resources fwd_lowered =
           map f (FullChunkResult_logical_axes example_lower_imports) \<and>
         low_computation fwd_lowered =
           shard_map example_lower_imports
             (\<lambda>params token_chunk.
                infer_xmap example_lower_imports h
                  (transformer_layer_weight_stationary example_lower_imports) params kv_caches
                  token_chunk a latency_collectives shard_seqlen_vs_batch b dt)
             M (low_in_axis_resources fwd_lowered) (low_out_axis_resources fwd_lowered) P tc)"
  by (intro conjI example_lower_returns strategy_matches_rules [OF example_lower_returns])

text \<open>
  C5. \<^verbatim>\<open>model_init\<close> returns, and each weight tensor has the shape of the data model,
  read from the hyperparameters: \<open>q_wi\<close> is \<open>[layers, heads, embed, q_wi_per_head]\<close>,
  \<open>kv\<close> is \<open>[layers, embed, 1, 2 * qkv]\<close>, \<open>o_wo\<close> is
  \<open>[layers, heads, o_wo_per_head, embed]\<close>, \<open>sin\<close> and \<open>cos\<close> are
  \<open>[max_len, qkv div 2]\<close>, and \<open>embedding\<close> is \<open>[vocab, embed]\<close>.
\<close>

theorem model_init_shapes:
  "\<exists>W C. model_init E h dt b s amb = Some (W, C) \<and>
     shape (q_wi (layer W)) = [layers h, heads h, embed h, q_wi_per_head E h] \<and>
     shape (kv (layer W)) = [layers h, embed h, 1, 2 * qkv h] \<and>
     shape (o_wo (layer W)) = [layers h, heads h, o_wo_per_head E h, embed h] \<and>
     shape (sin W) = [max_len h, qkv h div 2] \<and>
     shape (cos W) = [max_len h, qkv h div 2] \<and>
     shape (embedding W) = [vocab h, embed h]"
  by (simp add: model_init_eq random_normal_def jnp_ones_def)




text \<open>
  C7. The KV cache starts empty: whenever \<^verbatim>\<open>setup\<close> returns, the seventh component of
  its tuple is the empty list, and whenever \<^verbatim>\<open>lower\<close> returns, the cache argument of
  \<^verbatim>\<open>infer_xmap\<close> in the forward computation is the empty list.
\<close>

theorem kv_cache_starts_empty:
  fixes E :: "('rules, 'phys, 'attn, 'table, 'lf, 'kv, 'res, 'out) lower_imports"
  shows
  "(setup_fn E amb mesh b s \<noteq> (None :: ('phys, 'kv) setup_result option) \<longrightarrow>
      (\<exists>init_lowered dt h m P P' tc cs ps rs.
         setup_fn E amb mesh b s =
           Some (init_lowered, dt, h, m, P, P', ([] :: 'kv list), tc, cs, ps, rs))) \<and>
   (lower E amb \<noteq> None \<longrightarrow>
      (\<exists>init_lowered fwd_lowered h a latency_collectives shard_seqlen_vs_batch
          batch_unsharded dt M ins outs P tc.
         lower E amb =
           Some [(''xmap_transformer_init'', Inl init_lowered),
                 (''xmap_transformer_fwd'', Inr fwd_lowered)] \<and>
         low_computation fwd_lowered =
           shard_map E
             (\<lambda>params token_chunk.
                infer_xmap E h (transformer_layer_weight_stationary E) params [] token_chunk a
                  latency_collectives shard_seqlen_vs_batch batch_unsharded dt)
             M ins outs P tc))"
proof (intro conjI impI)
  assume r: "setup_fn E amb mesh b s \<noteq> (None :: ('phys, 'kv) setup_result option)"
  obtain P T where es:
    "eval_shape (model_init E \<lparr>layers = 8, embed = 16, ff = 32, heads = 16, qkv = 4,
       max_len = 256, vocab = 1024\<rparr> float32 b s) amb = Some (P, T)"
    using eval_shape_returns by blast
  show "\<exists>init_lowered dt h m P P' tc cs ps rs.
         setup_fn E amb mesh b s =
           Some (init_lowered, dt, h, m, P, P', ([] :: 'kv list), tc, cs, ps, rs)"
    using setup_accepted [OF r es] by (simp add: setup_fn_eq [OF es] Let_def)
next
  assume r: "lower E amb \<noteq> None"
  obtain P T where es:
    "eval_shape (model_init E \<lparr>layers = 8, embed = 16, ff = 32, heads = 16, qkv = 4,
       max_len = 256, vocab = 1024\<rparr> float32 8 32) amb = Some (P, T)"
    using eval_shape_returns by blast
  note acc = lower_accepted [OF r es]
  show "\<exists>init_lowered fwd_lowered h a latency_collectives shard_seqlen_vs_batch
          batch_unsharded dt M ins outs P tc.
         lower E amb =
           Some [(''xmap_transformer_init'', Inl init_lowered),
                 (''xmap_transformer_fwd'', Inr fwd_lowered)] \<and>
         low_computation fwd_lowered =
           shard_map E
             (\<lambda>params token_chunk.
                infer_xmap E h (transformer_layer_weight_stationary E) params [] token_chunk a
                  latency_collectives shard_seqlen_vs_batch batch_unsharded dt)
             M ins outs P tc"
    unfolding lower_eq [OF es] Let_def fwd_abs using acc [unfolded fwd_abs]
    by (simp only: if_True simp_thms) fastforce
qed

text \<open>The example implementation: both \<^verbatim>\<open>setup\<close> and \<^verbatim>\<open>lower\<close> return.\<close>

theorem kv_cache_starts_empty_witness:
  "setup_fn example_lower_imports \<lparr>rules_ctx = Some table_sharded, mesh_ctx = None\<rparr>
     example_mesh 8 32 \<noteq> (None :: (target list option, unit) setup_result option) \<and>
   (\<exists>init_lowered dt h m P P' tc cs ps rs.
      setup_fn example_lower_imports \<lparr>rules_ctx = Some table_sharded, mesh_ctx = None\<rparr>
        example_mesh 8 32 =
      Some (init_lowered, dt, h, m, P, P', ([] :: unit list), tc, cs, ps, rs)) \<and>
   lower example_lower_imports \<lparr>rules_ctx = Some table_sharded, mesh_ctx = None\<rparr> \<noteq> None \<and>
   (\<exists>init_lowered fwd_lowered h a latency_collectives shard_seqlen_vs_batch
       batch_unsharded dt M ins outs P tc.
      lower example_lower_imports \<lparr>rules_ctx = Some table_sharded, mesh_ctx = None\<rparr> =
        Some [(''xmap_transformer_init'', Inl init_lowered),
              (''xmap_transformer_fwd'', Inr fwd_lowered)] \<and>
      low_computation fwd_lowered =
        shard_map example_lower_imports
          (\<lambda>params token_chunk.
             infer_xmap example_lower_imports h
               (transformer_layer_weight_stationary example_lower_imports) params [] token_chunk
               a latency_collectives shard_seqlen_vs_batch batch_unsharded dt)
          M ins outs P tc)"
  using kv_cache_starts_empty [of example_lower_imports
      "\<lparr>rules_ctx = Some table_sharded, mesh_ctx = None\<rparr>" example_mesh 8 32]
    example_setup_returns
    example_lower_returns [of "\<lparr>rules_ctx = Some table_sharded, mesh_ctx = None\<rparr>"]
  by blast

text \<open>
  C8. The elements of \<open>lengths\<close> are 32-bit: with \<open>batch_size = 1\<close> and
  \<open>seq_len = 2147483648\<close> the one entry of \<open>lengths\<close> is \<open>-2147483648\<close>, not \<open>seq_len\<close>.
\<close>

theorem chunk_lengths_wrap_counterexample:
  "map_option (content \<circ> lengths \<circ> snd)
     (model_init example_imports
        \<lparr>layers = 8, embed = 16, ff = 32, heads = 16, qkv = 4, max_len = 256, vocab = 1024\<rparr>
        float32 1 2147483648 \<lparr>rules_ctx = None, mesh_ctx = None\<rparr>) =
     Some (Ints [- 2147483648]) \<and>
   (- 2147483648 :: int) \<noteq> int 2147483648"
  by (simp add: model_init_eq jnp_array_def wrap_int32_def)

text \<open>
  C8, as amended. The chunk \<^verbatim>\<open>model_init\<close> builds: \<open>tokens\<close> has shape
  \<open>[batch_size, seq_len]\<close>, \<open>lengths\<close> has \<open>batch_size\<close> entries, and
  \<open>lengths[i] \<le> seq_len\<close> for every row \<open>i\<close>; when \<open>seq_len\<close> is below \<open>2^31\<close>,
  \<open>lengths\<close> is the vector of \<open>batch_size\<close> entries all equal to \<open>seq_len\<close>, so no
  row has padding.
\<close>

theorem chunk_lengths_int32:
  "\<exists>W C xs. model_init E h dt b s amb = Some (W, C) \<and>
     shape (tokens C) = [b, s] \<and>
     shape (lengths C) = [b] \<and>
     content (lengths C) = Ints xs \<and>
     length xs = b \<and>
     (\<forall>i<b. xs ! i \<le> int s) \<and>
     (s < 2147483648 \<longrightarrow> xs = replicate b (int s) \<and> (\<forall>i<b. xs ! i = int s))"
  by (simp add: model_init_eq jnp_array_def wrap_int32_le wrap_int32_id)

text \<open>Row 3 of the exporter's chunk, \<open>batch_size = 8\<close> and \<open>seq_len = 32\<close>.\<close>

theorem chunk_lengths_int32_witness:
  "\<exists>W C xs. model_init example_imports
       \<lparr>layers = 8, embed = 16, ff = 32, heads = 16, qkv = 4, max_len = 256, vocab = 1024\<rparr>
       float32 8 32 \<lparr>rules_ctx = None, mesh_ctx = None\<rparr> = Some (W, C) \<and>
     shape (tokens C) = [8, 32] \<and>
     content (lengths C) = Ints xs \<and>
     (32 :: nat) < 2147483648 \<and> (3::nat) < 8 \<and> xs ! 3 \<le> 32 \<and> xs ! 3 = 32"
  using chunk_lengths_int32 [of example_imports
      "\<lparr>layers = 8, embed = 16, ff = 32, heads = 16, qkv = 4, max_len = 256, vocab = 1024\<rparr>"
      float32 8 32 "\<lparr>rules_ctx = None, mesh_ctx = None\<rparr>"]
  by fastforce

text \<open>
  C10. Whenever \<^verbatim>\<open>setup\<close> returns, the fifth and the sixth component of its tuple
  are the same value \<open>P\<close>, the parameter part of \<^verbatim>\<open>eval_shape(model_init)\<close>: a tree of
  shapes and dtypes, written out below, with no array contents in it. Whenever
  \<^verbatim>\<open>lower\<close> returns, the forward entry is the lowering of \<^verbatim>\<open>shard_map\<close> of \<^verbatim>\<open>fwd\<close> on
  \<open>P\<close> and the skeleton \<open>T\<close> of the chunk: each of its fields is determined by these
  shapes and dtypes and by the shardings.
\<close>

theorem rotated_params_abstract:
  fixes E :: "('rules, 'phys, 'attn, 'table, 'lf, 'kv, 'res, 'out) lower_imports"
  shows
  "(setup_fn E amb mesh b s \<noteq> (None :: ('phys, 'kv) setup_result option) \<longrightarrow>
      (let H = \<lparr>layers = 8, embed = 16, ff = 32, heads = 16, qkv = 4, max_len = 256,
                 vocab = 1024\<rparr>;
           P = Weights
                 (Layer \<lparr>sds_shape = [8, 16, 16, q_wi_per_head E H], sds_dtype = float32\<rparr>
                        \<lparr>sds_shape = [8, 16, 1, 8], sds_dtype = float32\<rparr>
                        \<lparr>sds_shape = [8, 16, o_wo_per_head E H, 16], sds_dtype = float32\<rparr>)
                 \<lparr>sds_shape = [256, 2], sds_dtype = float32\<rparr>
                 \<lparr>sds_shape = [256, 2], sds_dtype = float32\<rparr>
                 \<lparr>sds_shape = [1024, 16], sds_dtype = float32\<rparr>;
           T = Chunk \<lparr>sds_shape = [b, s], sds_dtype = int32\<rparr>
                     \<lparr>sds_shape = [b], sds_dtype = (if b = 0 then float32 else int32)\<rparr>
       in eval_shape (model_init E H float32 b s) (with_mesh mesh amb) = Some (P, T) \<and>
          (\<exists>init_lowered cs ps rs.
             setup_fn E amb mesh b s =
               Some (init_lowered, float32, H, mesh, P, P, ([] :: 'kv list), T, cs, ps, rs)))) \<and>
   (lower E amb \<noteq> None \<longrightarrow>
      (let H = \<lparr>layers = 8, embed = 16, ff = 32, heads = 16, qkv = 4, max_len = 256,
                 vocab = 1024\<rparr>;
           M = \<lparr>devices = \<lparr>nd_shape = [2, 2, 2], nd_items = fake_devices 8 ''tpu''\<rparr>,
                 axis_names = [''x'', ''y'', ''z'']\<rparr>;
           R = PartitioningRules E (make_rules_two_d E (AXES_YZX E) False);
           ps = map_Weights (logical_to_physical E (Some R)) (Weights_logical_axes E);
           cs = map_Chunk (logical_to_physical E (Some R)) (Chunk [None, None] [None]);
           rs = map (logical_to_physical E (Some R)) (FullChunkResult_logical_axes E);
           P = Weights
                 (Layer \<lparr>sds_shape = [8, 16, 16, q_wi_per_head E H], sds_dtype = float32\<rparr>
                        \<lparr>sds_shape = [8, 16, 1, 8], sds_dtype = float32\<rparr>
                        \<lparr>sds_shape = [8, 16, o_wo_per_head E H, 16], sds_dtype = float32\<rparr>)
                 \<lparr>sds_shape = [256, 2], sds_dtype = float32\<rparr>
                 \<lparr>sds_shape = [256, 2], sds_dtype = float32\<rparr>
                 \<lparr>sds_shape = [1024, 16], sds_dtype = float32\<rparr>;
           T = Chunk \<lparr>sds_shape = [8, 32], sds_dtype = int32\<rparr>
                     \<lparr>sds_shape = [8], sds_dtype = int32\<rparr>
       in \<exists>init_lowered.
            lower E amb =
              Some [(''xmap_transformer_init'', Inl init_lowered),
                    (''xmap_transformer_fwd'',
                     Inr \<lparr>low_mesh = Some M, low_in_axis_resources = (ps, cs),
                           low_out_axis_resources = rs, low_args = (P, T),
                           low_computation =
                             shard_map E (fwd E H [] (AXES_YZX E) False float32) M (ps, cs) rs
                               P T\<rparr>)]))"
proof (intro conjI impI)
  assume r: "setup_fn E amb mesh b s \<noteq> (None :: ('phys, 'kv) setup_result option)"
  note es = eval_shape_model_init [of E "\<lparr>layers = 8, embed = 16, ff = 32, heads = 16, qkv = 4,
    max_len = 256, vocab = 1024\<rparr>" float32 b s]
  show "let H = \<lparr>layers = 8, embed = 16, ff = 32, heads = 16, qkv = 4, max_len = 256,
                 vocab = 1024\<rparr>;
           P = Weights
                 (Layer \<lparr>sds_shape = [8, 16, 16, q_wi_per_head E H], sds_dtype = float32\<rparr>
                        \<lparr>sds_shape = [8, 16, 1, 8], sds_dtype = float32\<rparr>
                        \<lparr>sds_shape = [8, 16, o_wo_per_head E H, 16], sds_dtype = float32\<rparr>)
                 \<lparr>sds_shape = [256, 2], sds_dtype = float32\<rparr>
                 \<lparr>sds_shape = [256, 2], sds_dtype = float32\<rparr>
                 \<lparr>sds_shape = [1024, 16], sds_dtype = float32\<rparr>;
           T = Chunk \<lparr>sds_shape = [b, s], sds_dtype = int32\<rparr>
                     \<lparr>sds_shape = [b], sds_dtype = (if b = 0 then float32 else int32)\<rparr>
       in eval_shape (model_init E H float32 b s) (with_mesh mesh amb) = Some (P, T) \<and>
          (\<exists>init_lowered cs ps rs.
             setup_fn E amb mesh b s =
               Some (init_lowered, float32, H, mesh, P, P, ([] :: 'kv list), T, cs, ps, rs))"
    unfolding Let_def using setup_accepted [OF r es]
    by (simp add: setup_fn_eq [OF es] es Let_def)
next
  assume r: "lower E amb \<noteq> None"
  note es = eval_shape_model_init [of E "\<lparr>layers = 8, embed = 16, ff = 32, heads = 16, qkv = 4,
    max_len = 256, vocab = 1024\<rparr>" float32 8 32]
  show "let H = \<lparr>layers = 8, embed = 16, ff = 32, heads = 16, qkv = 4, max_len = 256,
                 vocab = 1024\<rparr>;
           M = \<lparr>devices = \<lparr>nd_shape = [2, 2, 2], nd_items = fake_devices 8 ''tpu''\<rparr>,
                 axis_names = [''x'', ''y'', ''z'']\<rparr>;
           R = PartitioningRules E (make_rules_two_d E (AXES_YZX E) False);
           ps = map_Weights (logical_to_physical E (Some R)) (Weights_logical_axes E);
           cs = map_Chunk (logical_to_physical E (Some R)) (Chunk [None, None] [None]);
           rs = map (logical_to_physical E (Some R)) (FullChunkResult_logical_axes E);
           P = Weights
                 (Layer \<lparr>sds_shape = [8, 16, 16, q_wi_per_head E H], sds_dtype = float32\<rparr>
                        \<lparr>sds_shape = [8, 16, 1, 8], sds_dtype = float32\<rparr>
                        \<lparr>sds_shape = [8, 16, o_wo_per_head E H, 16], sds_dtype = float32\<rparr>)
                 \<lparr>sds_shape = [256, 2], sds_dtype = float32\<rparr>
                 \<lparr>sds_shape = [256, 2], sds_dtype = float32\<rparr>
                 \<lparr>sds_shape = [1024, 16], sds_dtype = float32\<rparr>;
           T = Chunk \<lparr>sds_shape = [8, 32], sds_dtype = int32\<rparr>
                     \<lparr>sds_shape = [8], sds_dtype = int32\<rparr>
       in \<exists>init_lowered.
            lower E amb =
              Some [(''xmap_transformer_init'', Inl init_lowered),
                    (''xmap_transformer_fwd'',
                     Inr \<lparr>low_mesh = Some M, low_in_axis_resources = (ps, cs),
                           low_out_axis_resources = rs, low_args = (P, T),
                           low_computation =
                             shard_map E (fwd E H [] (AXES_YZX E) False float32) M (ps, cs) rs
                               P T\<rparr>)]"
    unfolding Let_def using lower_accepted [OF r es]
    by (simp add: lower_eq [OF es] Let_def)
qed

text \<open>The example implementation: both \<^verbatim>\<open>setup\<close> and \<^verbatim>\<open>lower\<close> return.\<close>

theorem rotated_params_abstract_witness:
  "setup_fn example_lower_imports \<lparr>rules_ctx = Some table_sharded, mesh_ctx = None\<rparr>
     example_mesh 8 32 \<noteq> (None :: (target list option, unit) setup_result option) \<and>
   (\<exists>init_lowered h P T cs ps rs.
      setup_fn example_lower_imports \<lparr>rules_ctx = Some table_sharded, mesh_ctx = None\<rparr>
        example_mesh 8 32 =
      Some (init_lowered, float32, h, example_mesh, P, P, ([] :: unit list), T, cs, ps, rs) \<and>
      eval_shape (model_init example_lower_imports h float32 8 32)
        (with_mesh example_mesh \<lparr>rules_ctx = Some table_sharded, mesh_ctx = None\<rparr>) =
        Some (P, T)) \<and>
   lower example_lower_imports \<lparr>rules_ctx = Some table_sharded, mesh_ctx = None\<rparr> \<noteq> None \<and>
   (\<exists>init_lowered fwd_lowered.
      lower example_lower_imports \<lparr>rules_ctx = Some table_sharded, mesh_ctx = None\<rparr> =
        Some [(''xmap_transformer_init'', Inl init_lowered),
              (''xmap_transformer_fwd'', Inr fwd_lowered)] \<and>
      sds_shape (q_wi (layer (fst (low_args fwd_lowered)))) =
        [8, 16, 16, q_wi_per_head example_lower_imports
           \<lparr>layers = 8, embed = 16, ff = 32, heads = 16, qkv = 4, max_len = 256,
             vocab = 1024\<rparr>])"
proof -
  have r1: "setup_fn example_lower_imports \<lparr>rules_ctx = Some table_sharded, mesh_ctx = None\<rparr>
     example_mesh 8 32 \<noteq> (None :: (target list option, unit) setup_result option)"
    by (rule example_setup_returns)
  have r2: "lower example_lower_imports \<lparr>rules_ctx = Some table_sharded, mesh_ctx = None\<rparr> \<noteq>
      None"
    by (rule example_lower_returns)
  note th = rotated_params_abstract [of example_lower_imports
      "\<lparr>rules_ctx = Some table_sharded, mesh_ctx = None\<rparr>" example_mesh 8 32,
      unfolded Let_def]
  from th r1 have s: "\<exists>init_lowered h P T cs ps rs.
      setup_fn example_lower_imports \<lparr>rules_ctx = Some table_sharded, mesh_ctx = None\<rparr>
        example_mesh 8 32 =
      Some (init_lowered, float32, h, example_mesh, P, P, ([] :: unit list), T, cs, ps, rs) \<and>
      eval_shape (model_init example_lower_imports h float32 8 32)
        (with_mesh example_mesh \<lparr>rules_ctx = Some table_sharded, mesh_ctx = None\<rparr>) =
        Some (P, T)"
    by fastforce
  from th r2 have l: "\<exists>init_lowered fwd_lowered.
      lower example_lower_imports \<lparr>rules_ctx = Some table_sharded, mesh_ctx = None\<rparr> =
        Some [(''xmap_transformer_init'', Inl init_lowered),
              (''xmap_transformer_fwd'', Inr fwd_lowered)] \<and>
      sds_shape (q_wi (layer (fst (low_args fwd_lowered)))) =
        [8, 16, 16, q_wi_per_head example_lower_imports
           \<lparr>layers = 8, embed = 16, ff = 32, heads = 16, qkv = 4, max_len = 256,
             vocab = 1024\<rparr>]"
    by fastforce
  from r1 r2 s l show ?thesis by blast
qed

end
